theory Spec2Isabelle
  imports Main "HOL-Library.Word"
begin

section \<open>JWZ tokens (src/src/jwz.ts)\<close>

text \<open>
  A shallow embedding of \<^verbatim>\<open>src/src/jwz.ts\<close>: the classes
  \<^verbatim>\<open>RawJSONWebZeroknowledge\<close> and \<^verbatim>\<open>Token\<close> with the operations
  \<^verbatim>\<open>sanitized\<close>, \<^verbatim>\<open>parseCompact\<close>, \<^verbatim>\<open>prove\<close>,
  \<^verbatim>\<open>compactSerialize\<close>, \<^verbatim>\<open>getMessageHash\<close> and \<^verbatim>\<open>verify\<close>.

  Conventions of the embedding.
  \<^item> A JavaScript string is the list of its UTF-16 code units, each a 16-bit word.
    \<open>js\<close> makes such a string from a literal.
  \<^item> A rejected promise or a thrown exception is the \<open>Inl\<close> branch of a sum.
  \<^item> Mutation of a Token is explicit state passing: an operation returns the Token
    as it is after the call, also when the call throws.
  \<^item> Calls to the collaborators that the file imports (\<^verbatim>\<open>hash\<close>,
    \<^verbatim>\<open>prepare\<close>, the proving method) are recorded as a list of events, so that
    "is never invoked" is a statement about that list.
\<close>

subsection \<open>JavaScript values\<close>

type_synonym code_unit = "16 word"

type_synonym jsstring = "code_unit list"

definition js :: "string \<Rightarrow> jsstring" where
  "js s = map of_char s"

text \<open>The full stop, code unit 46.\<close>

definition dot :: code_unit where
  "dot = of_char CHR ''.''"

text \<open>
  The values \<^verbatim>\<open>JSON.parse\<close> returns. An object is the list of its own properties
  in enumeration order, with distinct keys. Numbers are restricted to integers.
  \<^verbatim>\<open>undefined\<close> is \<open>None\<close> of \<open>jsval\<close>.
\<close>

datatype json =
    JNull
  | JBool bool
  | JNum int
  | JStr jsstring
  | JArr "json list"
  | JObj "(jsstring \<times> json) list"

type_synonym jsval = "json option"

type_synonym bytes = "8 word list"

text \<open>The errors of the file, one constructor per \<^verbatim>\<open>throw\<close> and per failing call.\<close>

datatype error =
    MissingPayload                \<comment> \<open>'iden3/js-jwz: missing payload in JWZ message'\<close>
  | CriticalHeaderMissing jsstring  \<comment> \<open>'header is listed in critical KEY, but not presented'\<close>
  | InvalidCompactSegments        \<comment> \<open>'compact JWZ format must have three segments'\<close>
  | PrepareFunctionMissing        \<comment> \<open>'iden3/jwz: prepare func must be defined'\<close>
  | SerializationIncomplete       \<comment> \<open>'iden3/jwz:can't serialize without one of components'\<close>
  | SyntaxError                   \<comment> \<open>thrown by JSON.parse\<close>
  | TypeError                     \<comment> \<open>property read of null, Object.keys of undefined or null\<close>
  | InvalidCharacterError         \<comment> \<open>the DOMException of atob and of btoa\<close>
  | UnknownProvingMethod          \<comment> \<open>getProvingMethod rejects\<close>
  | HashFailed                    \<comment> \<open>hash rejects\<close>
  | PrepareFailed                 \<comment> \<open>prepare throws\<close>
  | ProveFailed                   \<comment> \<open>method.prove rejects\<close>
  | VerifyFailed                  \<comment> \<open>method.verify rejects\<close>

text \<open>
  JavaScript's \<^verbatim>\<open>!v\<close>: true on null, false, 0 and the empty string, false on
  every array and object (the empty ones too).
\<close>

fun falsy :: "json \<Rightarrow> bool" where
  "falsy JNull = True"
| "falsy (JBool b) = (\<not> b)"
| "falsy (JNum n) = (n = 0)"
| "falsy (JStr s) = (s = [])"
| "falsy (JArr xs) = False"
| "falsy (JObj kvs) = False"

text \<open>\<^verbatim>\<open>!s\<close> for a string-valued field that may be undefined.\<close>

fun falsy_text :: "jsstring option \<Rightarrow> bool" where
  "falsy_text None = True"
| "falsy_text (Some s) = (s = [])"

text \<open>The decimal numeral of an array index, as \<^verbatim>\<open>Object.keys\<close> prints it.\<close>

definition digit_char :: "nat \<Rightarrow> code_unit" where
  "digit_char d = of_nat (48 + d)"

fun index_key :: "nat \<Rightarrow> jsstring" where
  "index_key n = (if n < 10 then [digit_char n] else index_key (n div 10) @ [digit_char (n mod 10)])"

declare index_key.simps [simp del]

text \<open>
  \<^verbatim>\<open>Object.keys(v)\<close>: a TypeError on undefined and null, no key on a boolean or a
  number, the indices \<open>"0", "1", ...\<close> on a string and on an array, the own property
  names on an object.
\<close>

fun Object_keys :: "jsval \<Rightarrow> error + jsstring list" where
  "Object_keys None = Inl TypeError"
| "Object_keys (Some JNull) = Inl TypeError"
| "Object_keys (Some (JBool b)) = Inr []"
| "Object_keys (Some (JNum n)) = Inr []"
| "Object_keys (Some (JStr s)) = Inr (map index_key [0..<length s])"
| "Object_keys (Some (JArr xs)) = Inr (map index_key [0..<length xs])"
| "Object_keys (Some (JObj kvs)) = Inr (map fst kvs)"

text \<open>
  The property names every object inherits from \<^verbatim>\<open>Object.prototype\<close>; each of
  them reads as a truthy value (a function, or the prototype object itself).
\<close>

definition Object_prototype_keys :: "jsstring list" where
  "Object_prototype_keys =
     map js
       [''constructor'', ''__defineGetter__'', ''__defineSetter__'', ''hasOwnProperty'',
        ''__lookupGetter__'', ''__lookupSetter__'', ''isPrototypeOf'', ''propertyIsEnumerable'',
        ''toString'', ''valueOf'', ''__proto__'', ''toLocaleString'']"

text \<open>
  \<^verbatim>\<open>headers[key]\<close> on an object, for the names \<^verbatim>\<open>crit\<close>, \<^verbatim>\<open>alg\<close> and
  \<^verbatim>\<open>circuitId\<close>, none of which is inherited: the own property or undefined.
\<close>

definition own_property :: "(jsstring \<times> json) list \<Rightarrow> jsstring \<Rightarrow> jsval" where
  "own_property kvs key = map_of kvs key"

text \<open>
  \<^verbatim>\<open>!headers[key]\<close> on an object, for any key: decided by the own property
  when there is one, and otherwise by whether the key is inherited.
\<close>

definition property_falsy :: "(jsstring \<times> json) list \<Rightarrow> jsstring \<Rightarrow> bool" where
  "property_falsy kvs key =
     (case map_of kvs key of
        Some v \<Rightarrow> falsy v
      | None \<Rightarrow> key \<notin> set Object_prototype_keys)"

subsection \<open>atob and btoa\<close>

text \<open>
  The platform's base64 functions, as the HTML standard defines them (forgiving-base64
  encode and decode), over the alphabet \<open>A-Z a-z 0-9 + /\<close> with \<open>=\<close> padding.
  \<^verbatim>\<open>btoa\<close> encodes, and throws \<^verbatim>\<open>InvalidCharacterError\<close> when the string holds a
  code unit above 255; \<^verbatim>\<open>atob\<close> decodes, and throws \<^verbatim>\<open>InvalidCharacterError\<close> on
  text that is not base64.
\<close>

text \<open>
  The code of the character at a position of the alphabet: \<open>A\<close> is 65, \<open>a\<close> is 97,
  \<open>0\<close> is 48, \<open>+\<close> is 43 and \<open>/\<close> is 47.
\<close>

definition base64_code :: "nat \<Rightarrow> nat" where
  "base64_code i =
     (if i < 26 then 65 + i
      else if i < 52 then 71 + i
      else if i < 62 then i - 4
      else if i = 62 then 43
      else 47)"

definition base64_char :: "nat \<Rightarrow> code_unit" where
  "base64_char i = of_nat (base64_code i)"

fun base64_encode :: "nat list \<Rightarrow> jsstring" where
  "base64_encode [] = []"
| "base64_encode [a] =
     [base64_char (a div 4), base64_char ((a mod 4) * 16), 61, 61]"
| "base64_encode [a, b] =
     [base64_char (a div 4), base64_char ((a mod 4) * 16 + b div 16),
      base64_char ((b mod 16) * 4), 61]"
| "base64_encode (a # b # c # rest) =
     [base64_char (a div 4), base64_char ((a mod 4) * 16 + b div 16),
      base64_char ((b mod 16) * 4 + c div 64), base64_char (c mod 64)] @ base64_encode rest"

definition btoa :: "jsstring \<Rightarrow> error + jsstring" where
  "btoa s =
     (if list_ex (\<lambda>c. 255 < c) s then Inl InvalidCharacterError
      else Inr (base64_encode (map unat s)))"

text \<open>Tab, line feed, form feed, carriage return and space.\<close>

definition is_ascii_whitespace :: "code_unit \<Rightarrow> bool" where
  "is_ascii_whitespace c = (c \<in> set [9, 10, 12, 13, 32])"

definition is_base64_char :: "code_unit \<Rightarrow> bool" where
  "is_base64_char c =
     ((65 \<le> c \<and> c \<le> 90) \<or> (97 \<le> c \<and> c \<le> 122) \<or> (48 \<le> c \<and> c \<le> 57) \<or> c = 43 \<or> c = 47)"

text \<open>The position of a base64 character in the alphabet.\<close>

definition base64_value :: "code_unit \<Rightarrow> nat" where
  "base64_value c =
     (let n = unat c in
      if n = 43 then 62
      else if n = 47 then 63
      else if n \<le> 57 then n + 4
      else if n \<le> 90 then n - 65
      else n - 71)"

text \<open>
  If the length is a multiple of four, one or two trailing \<open>=\<close> are removed.
\<close>

definition strip_padding :: "jsstring \<Rightarrow> jsstring" where
  "strip_padding d =
     (if length d mod 4 = 0 then
        (if 2 \<le> length d \<and> drop (length d - 2) d = [61, 61] then take (length d - 2) d
         else if 1 \<le> length d \<and> drop (length d - 1) d = [61] then take (length d - 1) d
         else d)
      else d)"

text \<open>
  Four sextets give three bytes; two trailing sextets give one byte and three give two,
  the unused low bits being dropped.
\<close>

fun base64_decode :: "nat list \<Rightarrow> nat list" where
  "base64_decode (a # b # c # d # rest) =
     [a * 4 + b div 16, (b mod 16) * 16 + c div 4, (c mod 4) * 64 + d] @ base64_decode rest"
| "base64_decode [a, b, c] = [a * 4 + b div 16, (b mod 16) * 16 + c div 4]"
| "base64_decode [a, b] = [a * 4 + b div 16]"
| "base64_decode [a] = []"
| "base64_decode [] = []"

definition atob :: "jsstring \<Rightarrow> error + jsstring" where
  "atob s =
     (let d = strip_padding (filter (\<lambda>c. \<not> is_ascii_whitespace c) s) in
      if length d mod 4 = 1 then Inl InvalidCharacterError
      else if list_all is_base64_char d
        then Inr (map of_nat (base64_decode (map base64_value d)))
        else Inl InvalidCharacterError)"

text \<open>
  \<^verbatim>\<open>new TextEncoder().encode(s)\<close>: the UTF-8 bytes of the text. A code unit below
  128 is one byte and one below 2048 is two; a surrogate pair is the four bytes of the
  code point it denotes; a surrogate without its partner is the three bytes of U+FFFD;
  every other code unit is three bytes.
\<close>

definition is_high_surrogate :: "code_unit \<Rightarrow> bool" where
  "is_high_surrogate c = (55296 \<le> c \<and> c < 56320)"

definition is_low_surrogate :: "code_unit \<Rightarrow> bool" where
  "is_low_surrogate c = (56320 \<le> c \<and> c < 57344)"

definition utf8_unit :: "code_unit \<Rightarrow> bytes" where
  "utf8_unit c =
     (let n = unat c in
      if n < 128 then [of_nat n]
      else if n < 2048 then [of_nat (192 + n div 64), of_nat (128 + n mod 64)]
      else if is_high_surrogate c \<or> is_low_surrogate c then [239, 191, 189]
      else [of_nat (224 + n div 4096), of_nat (128 + n div 64 mod 64), of_nat (128 + n mod 64)])"

definition utf8_pair :: "code_unit \<Rightarrow> code_unit \<Rightarrow> bytes" where
  "utf8_pair c d =
     (let p = 65536 + (unat c - 55296) * 1024 + (unat d - 56320) in
      [of_nat (240 + p div 262144), of_nat (128 + p div 4096 mod 64),
       of_nat (128 + p div 64 mod 64), of_nat (128 + p mod 64)])"

fun TextEncoder_encode :: "jsstring \<Rightarrow> bytes" where
  "TextEncoder_encode [] = []"
| "TextEncoder_encode [c] = utf8_unit c"
| "TextEncoder_encode (c # d # ds) =
     (if is_high_surrogate c \<and> is_low_surrogate d
      then utf8_pair c d @ TextEncoder_encode ds
      else utf8_unit c @ TextEncoder_encode (d # ds))"

text \<open>\<^verbatim>\<open>tokenStr.split('.')\<close>: the pieces between the dots; never an empty list.\<close>

fun split_dot :: "jsstring \<Rightarrow> jsstring list" where
  "split_dot [] = [[]]"
| "split_dot (c # cs) =
     (if c = dot then [] # split_dot cs
      else (case split_dot cs of
              [] \<Rightarrow> [[c]]
            | p # ps \<Rightarrow> (c # p) # ps))"

subsection \<open>The data model\<close>

text \<open>The header names (lines 12 to 15).\<close>

definition headerType :: jsstring where "headerType = js ''typ''"
definition headerCritical :: jsstring where "headerCritical = js ''crit''"
definition headerAlg :: jsstring where "headerAlg = js ''alg''"
definition headerCircuitId :: jsstring where "headerCircuitId = js ''circuitId''"

text \<open>
  \<^verbatim>\<open>IRawJSONWebZeroknowledge\<close>. An instance of the class
  \<^verbatim>\<open>RawJSONWebZeroknowledge\<close> has all four fields; the \<^verbatim>\<open>raw\<close> of a Token
  starts as \<^verbatim>\<open>{}\<close>, gets \<^verbatim>\<open>header\<close> and \<^verbatim>\<open>payload\<close> in the constructor,
  and has \<^verbatim>\<open>protectedHeaders\<close> and \<^verbatim>\<open>zkp\<close> undefined until \<^verbatim>\<open>prove\<close>
  assigns them.
\<close>

record IRawJSONWebZeroknowledge =
  payload :: jsstring
  protectedHeaders :: "jsstring option"
  header :: json
  zkp :: "jsstring option"

text \<open>
  \<^verbatim>\<open>ProvingMethod\<close> (declared in \<^verbatim>\<open>./proving\<close>): its two names and its two
  operations, each of which may reject.
\<close>

record ProvingMethod =
  method_alg :: jsstring
  method_circuitId :: jsstring
  method_prove :: "bytes \<Rightarrow> bytes \<Rightarrow> bytes \<Rightarrow> json option"
  method_verify :: "bytes \<Rightarrow> json \<Rightarrow> bytes \<Rightarrow> bool option"

type_synonym ProofInputsPreparerHandlerFunc = "bytes \<Rightarrow> jsval \<Rightarrow> bytes option"

text \<open>
  \<^verbatim>\<open>Token\<close>. The fields \<^verbatim>\<open>alg\<close> and \<^verbatim>\<open>circuitId\<close> are declared as
  strings, but \<^verbatim>\<open>sanitized\<close> assigns them whatever the parsed header holds, so
  they are JavaScript values here. \<^verbatim>\<open>zkProof\<close> starts as the empty object.
\<close>

record Token =
  alg :: jsval
  circuitId :: jsval
  raw :: IRawJSONWebZeroknowledge
  zkProof :: json
  method' :: ProvingMethod
  inputsPreparer :: "ProofInputsPreparerHandlerFunc option"

text \<open>
  What the file takes from outside: the platform's \<^verbatim>\<open>JSON.parse\<close> (\<open>None\<close>
  is its SyntaxError) and \<^verbatim>\<open>JSON.stringify\<close>, and the repository's
  \<^verbatim>\<open>hash\<close> (\<^verbatim>\<open>./hash\<close>), \<^verbatim>\<open>getProvingMethod\<close> and \<^verbatim>\<open>prepare\<close>
  (\<^verbatim>\<open>./proving\<close>), none of which is under \<^verbatim>\<open>src/\<close>. \<open>None\<close> is a
  rejection. \<open>hashLength\<close> is the width of \<^verbatim>\<open>toLittleEndian\<close>.
\<close>

record env =
  JSON_parse :: "jsstring \<Rightarrow> json option"
  JSON_stringify :: "json \<Rightarrow> jsstring"
  hash :: "bytes \<Rightarrow> int option"
  hashLength :: nat
  getProvingMethod :: "jsval \<Rightarrow> ProvingMethod option"
  prepare :: "ProofInputsPreparerHandlerFunc \<Rightarrow> bytes \<Rightarrow> jsval \<Rightarrow> bytes option"

text \<open>The calls to the collaborators, in the order they are made.\<close>

datatype event =
    HashCall bytes
  | PrepareCall bytes jsval
  | ProveCall bytes bytes bytes
  | VerifyCall bytes json bytes

text \<open>
  Modelled from the spec: \<^verbatim>\<open>toLittleEndian\<close> of \<^verbatim>\<open>./core/util\<close>, which is not
  under \<^verbatim>\<open>src/\<close>. The spec (4.1): "the integer is serialized to a fixed-width
  little-endian byte sequence". Byte \<open>i\<close> of the \<open>w\<close> bytes is digit \<open>i\<close> of the
  integer in base 256.
\<close>

definition toLittleEndian :: "nat \<Rightarrow> int \<Rightarrow> bytes" where
  "toLittleEndian w n = map (\<lambda>i. word_of_int (n div 256 ^ i)) [0..<w]"

subsection \<open>Token: construction\<close>

definition getDefaultHeaders :: "jsstring \<Rightarrow> jsstring \<Rightarrow> json" where
  "getDefaultHeaders a c =
     JObj [(headerAlg, JStr a),
           (headerCritical, JArr [JStr headerCircuitId]),
           (headerCircuitId, JStr c),
           (headerType, JStr (js ''JWZ''))]"

text \<open>The constructor (lines 69 to 81); its \<^verbatim>\<open>console.log\<close> is left out.\<close>

definition new_Token ::
  "ProvingMethod \<Rightarrow> jsstring \<Rightarrow> ProofInputsPreparerHandlerFunc option \<Rightarrow> Token" where
  "new_Token m p ip =
     \<lparr> alg = Some (JStr (method_alg m)),
       circuitId = Some (JStr (method_circuitId m)),
       raw = \<lparr> payload = p,
               protectedHeaders = None,
               header = getDefaultHeaders (method_alg m) (method_circuitId m),
               zkp = None \<rparr>,
       zkProof = JObj [],
       method' = m,
       inputsPreparer = ip \<rparr>"

definition setPayload :: "Token \<Rightarrow> jsstring \<Rightarrow> Token" where
  "setPayload t p = t\<lparr> raw := (raw t)\<lparr> payload := p \<rparr> \<rparr>"

subsection \<open>RawJSONWebZeroknowledge.sanitized (lines 34 to 59)\<close>

text \<open>
  The loop of lines 41 to 47 over the keys of \<^verbatim>\<open>criticalHeaders\<close>: the first key
  \<^verbatim>\<open>key\<close> with \<^verbatim>\<open>!headers[key]\<close> throws.
\<close>

definition check_critical :: "(jsstring \<times> json) list \<Rightarrow> jsstring list \<Rightarrow> error + unit" where
  "check_critical headers keys =
     (case find (property_falsy headers) keys of
        Some key \<Rightarrow> Inl (CriticalHeaderMissing key)
      | None \<Rightarrow> Inr ())"

text \<open>
  Lines 39 to 58 on a parsed header that is an object.
\<close>

definition sanitize_headers ::
  "env \<Rightarrow> IRawJSONWebZeroknowledge \<Rightarrow> (jsstring \<times> json) list \<Rightarrow> error + Token" where
  "sanitize_headers e r headers =
     (let criticalHeaders = own_property headers headerCritical in
      case Object_keys criticalHeaders of
        Inl err \<Rightarrow> Inl err
      | Inr keys \<Rightarrow>
         (case check_critical headers keys of
            Inl err \<Rightarrow> Inl err
          | Inr u \<Rightarrow>
             (let a = own_property headers headerAlg in
              case getProvingMethod e a of
                None \<Rightarrow> Inl UnknownProvingMethod
              | Some m \<Rightarrow>
                 (let c = own_property headers headerCircuitId in
                  case (case zkp r of None \<Rightarrow> None | Some z \<Rightarrow> JSON_parse e z) of
                    None \<Rightarrow> Inl SyntaxError
                  | Some proof \<Rightarrow>
                      Inr ((new_Token m (payload r) None)
                             \<lparr> alg := a, circuitId := c, zkProof := proof \<rparr>)))))"

text \<open>
  \<^verbatim>\<open>sanitized\<close>. \<^verbatim>\<open>JSON.parse\<close> of an undefined field is a SyntaxError.
  On a header that parses to null, reading \<^verbatim>\<open>headers['crit']\<close> is a TypeError; on
  a boolean, a number, a string or an array it is undefined, and
  \<^verbatim>\<open>Object.keys(undefined)\<close> is a TypeError.
\<close>

definition sanitized :: "env \<Rightarrow> IRawJSONWebZeroknowledge \<Rightarrow> error + Token" where
  "sanitized e r =
     (if payload r = [] then Inl MissingPayload
      else case (case protectedHeaders r of None \<Rightarrow> None | Some h \<Rightarrow> JSON_parse e h) of
        None \<Rightarrow> Inl SyntaxError
      | Some (JObj headers) \<Rightarrow> sanitize_headers e r headers
      | Some other \<Rightarrow> Inl TypeError)"

subsection \<open>Token.parseCompact (lines 114 to 135)\<close>

definition parseCompact :: "env \<Rightarrow> jsstring \<Rightarrow> error + Token" where
  "parseCompact e tokenStr =
     (let parts = split_dot tokenStr in
      if length parts \<noteq> 3 then Inl InvalidCompactSegments
      else case atob (parts ! 0) of
        Inl err \<Rightarrow> Inl err
      | Inr rawProtected \<Rightarrow>
         (case atob (parts ! 1) of
            Inl err \<Rightarrow> Inl err
          | Inr rawPayload \<Rightarrow>
             (case atob (parts ! 2) of
                Inl err \<Rightarrow> Inl err
              | Inr proof \<Rightarrow>
                  sanitized e \<lparr> payload = rawPayload,
                                protectedHeaders = Some rawProtected,
                                header = JObj [],
                                zkp = Some proof \<rparr>)))"

subsection \<open>Token.getMessageHash (lines 190 to 203)\<close>

text \<open>
  Lines 191 to 199: the bytes to hash. Either call of \<^verbatim>\<open>btoa\<close> may throw.
\<close>

definition messageToProof :: "env \<Rightarrow> Token \<Rightarrow> error + bytes" where
  "messageToProof e t =
     (let headers = JSON_stringify e (header (raw t)) in
      case btoa headers of
        Inl err \<Rightarrow> Inl err
      | Inr protectedHeaders' \<Rightarrow>
         (case btoa (payload (raw t)) of
            Inl err \<Rightarrow> Inl err
          | Inr payload' \<Rightarrow>
              Inr (TextEncoder_encode (protectedHeaders' @ js ''.'' @ payload'))))"

definition getMessageHash :: "env \<Rightarrow> Token \<Rightarrow> (error + bytes) \<times> event list" where
  "getMessageHash e t =
     (case messageToProof e t of
        Inl err \<Rightarrow> (Inl err, [])
      | Inr m \<Rightarrow>
         (case hash e m of
            None \<Rightarrow> (Inl HashFailed, [HashCall m])
          | Some hashInt \<Rightarrow> (Inr (toLittleEndian (hashLength e) hashInt), [HashCall m])))"

subsection \<open>Token.compactSerialize (lines 173 to 183)\<close>

text \<open>
  A field that is undefined reads as the text \<^verbatim>\<open>undefined\<close> where a string is
  expected (\<^verbatim>\<open>atob(undefined)\<close> is \<^verbatim>\<open>atob("undefined")\<close>).
\<close>

fun ToString :: "jsstring option \<Rightarrow> jsstring" where
  "ToString None = js ''undefined''"
| "ToString (Some s) = s"

definition compactSerialize :: "env \<Rightarrow> Token \<Rightarrow> error + jsstring" where
  "compactSerialize e t =
     (if falsy (header (raw t)) \<or> falsy_text (protectedHeaders (raw t)) \<or> falsy (zkProof t)
      then Inl SerializationIncomplete
      else case atob (ToString (protectedHeaders (raw t))) of
        Inl err \<Rightarrow> Inl err
      | Inr serializedProtected \<Rightarrow>
         (case atob (JSON_stringify e (zkProof t)) of
            Inl err \<Rightarrow> Inl err
          | Inr serializedProof \<Rightarrow>
             (case atob (payload (raw t)) of
                Inl err \<Rightarrow> Inl err
              | Inr serializedPayload \<Rightarrow>
                  Inr (serializedProtected @ js ''.'' @ serializedPayload @ js ''.''
                       @ serializedProof))))"

subsection \<open>Token.prove (lines 145 to 170)\<close>

definition prove ::
  "env \<Rightarrow> Token \<Rightarrow> bytes \<Rightarrow> bytes \<Rightarrow> (error + jsstring) \<times> Token \<times> event list" where
  "prove e t provingKey wasm =
     (let headers = JSON_stringify e (header (raw t));
          t1 = t\<lparr> raw := (raw t)\<lparr> protectedHeaders := Some headers \<rparr> \<rparr>;
          (h, evs) = getMessageHash e t1
      in case h of
        Inl err \<Rightarrow> (Inl err, t1, evs)
      | Inr msgHash \<Rightarrow>
         (case inputsPreparer t1 of
            None \<Rightarrow> (Inl PrepareFunctionMissing, t1, evs)
          | Some ip \<Rightarrow>
             (case prepare e ip msgHash (circuitId t1) of
                None \<Rightarrow> (Inl PrepareFailed, t1, evs @ [PrepareCall msgHash (circuitId t1)])
              | Some inputs \<Rightarrow>
                 (let evs' = evs @ [PrepareCall msgHash (circuitId t1),
                                    ProveCall inputs provingKey wasm]
                  in case method_prove (method' t1) inputs provingKey wasm of
                    None \<Rightarrow> (Inl ProveFailed, t1, evs')
                  | Some proof \<Rightarrow>
                     (let marshaledProof = JSON_stringify e proof;
                          t2 = t1\<lparr> zkProof := proof,
                                   raw := (raw t1)\<lparr> zkp := Some marshaledProof \<rparr> \<rparr>
                      in (compactSerialize e t2, t2, evs'))))))"

subsection \<open>Token.verify (lines 206 to 212)\<close>

definition verify ::
  "env \<Rightarrow> Token \<Rightarrow> bytes \<Rightarrow> (error + bool) \<times> Token \<times> event list" where
  "verify e t verificationKey =
     (case getMessageHash e t of
        (Inl err, evs) \<Rightarrow> (Inl err, t, evs)
      | (Inr msgHash, evs) \<Rightarrow>
         (let evs' = evs @ [VerifyCall msgHash (zkProof t) verificationKey]
          in case method_verify (method' t) msgHash (zkProof t) verificationKey of
            None \<Rightarrow> (Inl VerifyFailed, t, evs')
          | Some b \<Rightarrow> (Inr b, t, evs')))"

subsection \<open>A concrete environment\<close>

text \<open>
  The scenario of the spec (section 8): a proving method registered for
  \<^verbatim>\<open>alg = "m1"\<close> and \<^verbatim>\<open>circuitId = "c1"\<close>, and the payload \<^verbatim>\<open>{"id":1}\<close>.
  The method's \<^verbatim>\<open>prove\<close> returns one fixed proof and its \<^verbatim>\<open>verify\<close> accepts
  exactly that proof.
\<close>

definition proof_m1 :: json where
  "proof_m1 =
     JObj [(js ''proof'', JStr (js ''p1'')), (js ''pub_signals'', JArr [JStr (js ''1'')])]"

definition method_m1 :: ProvingMethod where
  "method_m1 =
     \<lparr> method_alg = js ''m1'',
       method_circuitId = js ''c1'',
       method_prove = (\<lambda>inputs provingKey wasm. Some proof_m1),
       method_verify = (\<lambda>msgHash proof verificationKey. Some (proof = proof_m1)) \<rparr>"

definition payload_id1 :: jsstring where
  \<open>payload_id1 = js ''{"id":1}''\<close>

text \<open>The payload that is the euro sign, the one code unit U+20AC.\<close>

definition payload_euro :: jsstring where
  "payload_euro = [8364]"

text \<open>
  \<^verbatim>\<open>JSON.stringify\<close> and \<^verbatim>\<open>JSON.parse\<close> at the values and texts of the
  scenarios: each pair is a value and its JSON text. The third header is the header
  \<^verbatim>\<open>{"alg":"m1","circuitId":"c1","crit":["foo"],"0":"x"}\<close>, whose index-like key
  \<^verbatim>\<open>0\<close> comes first in the enumeration order of the parsed object.
\<close>

definition header_foo_missing :: json where
  "header_foo_missing =
     JObj [(js ''alg'', JStr (js ''m1'')), (js ''circuitId'', JStr (js ''c1'')),
           (js ''crit'', JArr [JStr (js ''circuitId''), JStr (js ''foo'')])]"

definition header_index_key :: json where
  "header_index_key =
     JObj [(js ''0'', JStr (js ''x'')), (js ''alg'', JStr (js ''m1'')),
           (js ''circuitId'', JStr (js ''c1'')), (js ''crit'', JArr [JStr (js ''foo'')])]"

definition header_without_crit :: json where
  "header_without_crit =
     JObj [(js ''alg'', JStr (js ''m1'')), (js ''circuitId'', JStr (js ''c1''))]"

definition JSON_table :: "(json \<times> jsstring) list" where
  \<open>JSON_table =
     [(getDefaultHeaders (js ''m1'') (js ''c1''),
         js ''{"alg":"m1","crit":["circuitId"],"circuitId":"c1","typ":"JWZ"}''),
      (header_foo_missing,
         js ''{"alg":"m1","circuitId":"c1","crit":["circuitId","foo"]}''),
      (header_index_key,
         js ''{"alg":"m1","circuitId":"c1","crit":["foo"],"0":"x"}''),
      (header_without_crit,
         js ''{"alg":"m1","circuitId":"c1"}''),
      (proof_m1,
         js ''{"proof":"p1","pub_signals":["1"]}''),
      (JObj [], js ''{}'')]\<close>

definition table_stringify :: "json \<Rightarrow> jsstring" where
  "table_stringify v = (case map_of JSON_table v of Some s \<Rightarrow> s | None \<Rightarrow> js ''null'')"

definition table_parse :: "jsstring \<Rightarrow> json option" where
  "table_parse s = map_of (map (\<lambda>(v, s). (s, v)) JSON_table) s"

text \<open>
  The registry knows \<^verbatim>\<open>m1\<close> only; \<^verbatim>\<open>prepare\<close> applies the preparer; the
  hash of a message is its length; the hash is serialized to 32 bytes.
\<close>

definition env_m1 :: env where
  "env_m1 =
     \<lparr> JSON_parse = table_parse,
       JSON_stringify = table_stringify,
       hash = (\<lambda>m. Some (int (length m))),
       hashLength = 32,
       getProvingMethod =
         (\<lambda>a. if a = Some (JStr (js ''m1'')) then Some method_m1 else None),
       prepare = (\<lambda>ip msgHash c. ip msgHash c) \<rparr>"

text \<open>The same environment with a hash that rejects.\<close>

definition env_hash_rejects :: env where
  "env_hash_rejects = env_m1\<lparr> hash := (\<lambda>m. None) \<rparr>"

definition identity_preparer :: ProofInputsPreparerHandlerFunc where
  "identity_preparer msgHash c = Some msgHash"

text \<open>
  Tokens built by the constructor: with an inputs-preparer, without one, and with the
  euro sign as payload. The raw token that compact parsing builds from the protected
  headers \<^verbatim>\<open>h\<close>, the payload and the proof of the scenario.
\<close>

definition token_m1 :: Token where
  "token_m1 = new_Token method_m1 payload_id1 (Some identity_preparer)"

definition token_m1_no_preparer :: Token where
  "token_m1_no_preparer = new_Token method_m1 payload_id1 None"

definition token_euro :: Token where
  "token_euro = new_Token method_m1 payload_euro (Some identity_preparer)"

definition raw_m1 :: "jsstring \<Rightarrow> IRawJSONWebZeroknowledge" where
  \<open>raw_m1 h =
     \<lparr> payload = payload_id1,
       protectedHeaders = Some h,
       header = JObj [],
       zkp = Some (js ''{"proof":"p1","pub_signals":["1"]}'') \<rparr>\<close>

text \<open>
  The compact token that encodes the default header of \<^verbatim>\<open>m1\<close>, the payload and
  the proof with base64: \<^verbatim>\<open>btoa(header) . btoa(payload) . btoa(proof)\<close>.
\<close>

definition compact_m1 :: jsstring where
  "compact_m1 =
     js ''eyJhbGciOiJtMSIsImNyaXQiOlsiY2lyY3VpdElkIl0sImNpcmN1aXRJZCI6ImMxIiwidHlwIjoiSldaIn0=''
     @ js ''.'' @ js ''eyJpZCI6MX0=''
     @ js ''.'' @ js ''eyJwcm9vZiI6InAxIiwicHViX3NpZ25hbHMiOlsiMSJdfQ==''"

subsection \<open>Notions the claims use\<close>

text \<open>The Token as a call of \<^verbatim>\<open>prove\<close> leaves it, and the events of the call.\<close>

definition token_after :: "'a \<times> Token \<times> event list \<Rightarrow> Token" where
  "token_after r = fst (snd r)"

definition events_of :: "'a \<times> Token \<times> event list \<Rightarrow> event list" where
  "events_of r = snd (snd r)"

fun is_ProveCall :: "event \<Rightarrow> bool" where
  "is_ProveCall (ProveCall inputs provingKey wasm) = True"
| "is_ProveCall other = False"

text \<open>\<open>ASCII(s)\<close>: the codes of the characters of a text, one byte each.\<close>

definition ASCII :: "jsstring \<Rightarrow> bytes" where
  "ASCII s = map (\<lambda>c. of_nat (unat c)) s"

text \<open>The integer a byte sequence denotes when read little-endian.\<close>

fun little_endian_value :: "bytes \<Rightarrow> int" where
  "little_endian_value [] = 0"
| "little_endian_value (b # bs) = uint b + 256 * little_endian_value bs"

text \<open>A parsed header has a key: it is an object with an own property of that name.\<close>

fun has_key :: "json \<Rightarrow> jsstring \<Rightarrow> bool" where
  "has_key (JObj kvs) key = (key \<in> fst ` set kvs)"
| "has_key other key = False"

text \<open>The number of segments of a compact token: one more than it has dots.\<close>

definition segments :: "jsstring \<Rightarrow> nat" where
  "segments s = Suc (count_list s dot)"

text \<open>The inverse of \<^verbatim>\<open>split('.')\<close>: the pieces joined by dots.\<close>

fun join_dot :: "jsstring list \<Rightarrow> jsstring" where
  "join_dot [] = []"
| "join_dot [p] = p"
| "join_dot (p # q # ps) = p @ [dot] @ join_dot (q # ps)"

text \<open>A text is Latin-1 when no code unit of it is above 255.\<close>

definition latin1 :: "jsstring \<Rightarrow> bool" where
  "latin1 s = list_all (\<lambda>c. c \<le> 255) s"

section \<open>Properties\<close>

lemmas scenario_defs =
  env_m1_def env_hash_rejects_def table_parse_def table_stringify_def JSON_table_def
  getDefaultHeaders_def header_foo_missing_def header_index_key_def header_without_crit_def
  proof_m1_def method_m1_def payload_id1_def payload_euro_def identity_preparer_def
  token_m1_def token_m1_no_preparer_def token_euro_def raw_m1_def new_Token_def
  headerAlg_def headerCritical_def headerCircuitId_def headerType_def js_def

lemmas sanitized_defs =
  sanitized_def sanitize_headers_def check_critical_def own_property_def
  property_falsy_def Object_prototype_keys_def digit_char_def

subsection \<open>The errors each operation can raise\<close>

lemma atob_error: "atob s = Inl err \<Longrightarrow> err = InvalidCharacterError"
  by (simp add: atob_def Let_def split: if_splits)

lemma btoa_error: "btoa s = Inl err \<Longrightarrow> err = InvalidCharacterError"
  by (simp add: btoa_def split: if_splits)

lemma Object_keys_error: "Object_keys v = Inl err \<Longrightarrow> err = TypeError"
  by (cases v rule: Object_keys.cases) simp_all

lemma sanitized_error:
  "sanitized e r = Inl err \<Longrightarrow> err \<noteq> InvalidCompactSegments"
  by (auto simp add: sanitized_def sanitize_headers_def check_critical_def Let_def
      split: if_splits option.splits sum.splits json.splits dest: Object_keys_error)

lemma compactSerialize_error:
  "compactSerialize e t = Inl err \<Longrightarrow> err = SerializationIncomplete \<or> err = InvalidCharacterError"
  by (auto simp add: compactSerialize_def split: if_splits sum.splits dest: atob_error)

subsection \<open>atob rejects JSON text\<close>

lemma strip_padding_keeps:
  assumes "c \<in> set d" and "c \<noteq> 61"
  shows "c \<in> set (strip_padding d)"
proof -
  have keep: "c \<in> set (take k d)" if "set (drop k d) \<subseteq> {61}" for k
  proof -
    have "set d = set (take k d) \<union> set (drop k d)"
      by (metis append_take_drop_id set_append)
    with assms that show ?thesis by auto
  qed
  show ?thesis
    unfolding strip_padding_def using assms(1) by (auto intro!: keep)
qed

lemma atob_rejects:
  assumes "c \<in> set s" and "\<not> is_base64_char c" and "\<not> is_ascii_whitespace c"
    and "c \<noteq> 61"
  shows "atob s = Inl InvalidCharacterError"
proof -
  from assms(1,3) have "c \<in> set (filter (\<lambda>c. \<not> is_ascii_whitespace c) s)"
    by simp
  then have "c \<in> set (strip_padding (filter (\<lambda>c. \<not> is_ascii_whitespace c) s))"
    using assms(4) by (rule strip_padding_keeps)
  with assms(2)
  have "\<not> list_all is_base64_char (strip_padding (filter (\<lambda>c. \<not> is_ascii_whitespace c) s))"
    by (auto simp add: list_all_iff)
  then show ?thesis
    by (simp add: atob_def Let_def)
qed

lemma atob_rejects_brace: "atob (js ''{'' @ rest) = Inl InvalidCharacterError"
  by (rule atob_rejects [where c = "123"])
    (simp_all add: is_base64_char_def is_ascii_whitespace_def js_def)

text \<open>
  Whatever the environment: on a Token whose protected-headers text starts with a
  brace, as the JSON text of an object does, \<^verbatim>\<open>compactSerialize\<close> returns no string.
\<close>

lemma compactSerialize_rejects_object_text:
  "protectedHeaders (raw t) = Some (js ''{'' @ rest) \<Longrightarrow> \<exists>err. compactSerialize e t = Inl err"
  by (simp add: compactSerialize_def atob_rejects_brace)

subsection \<open>btoa produces ASCII text\<close>

lemma base64_code_ascii: "i < 64 \<Longrightarrow> base64_code i < 128"
  unfolding base64_code_def by auto

lemma base64_char_ascii: "i < 64 \<Longrightarrow> base64_char i < 128"
proof -
  assume "i < 64"
  then have "base64_code i < 128" by (rule base64_code_ascii)
  then show ?thesis
    by (simp add: base64_char_def word_less_nat_alt unat_of_nat)
qed

lemma base64_encode_ascii:
  "\<forall>a \<in> set xs. a < 256 \<Longrightarrow> c \<in> set (base64_encode xs) \<Longrightarrow> c < 128"
proof (induction xs rule: base64_encode.induct)
  case 1
  then show ?case by simp
next
  case (2 a)
  then have "a < 256" by simp
  then have "a div 4 < 64" "(a mod 4) * 16 < 64" by arith+
  with 2 show ?case by (auto intro: base64_char_ascii)
next
  case (3 a b)
  then have "a < 256" "b < 256" by simp_all
  then have "a div 4 < 64" "(a mod 4) * 16 + b div 16 < 64" "(b mod 16) * 4 < 64" by arith+
  with 3 show ?case by (auto intro: base64_char_ascii)
next
  case (4 a b c' rest)
  then have "a < 256" "b < 256" "c' < 256" by simp_all
  then have "a div 4 < 64" "(a mod 4) * 16 + b div 16 < 64" "(b mod 16) * 4 + c' div 64 < 64"
    "c' mod 64 < 64" by arith+
  with 4 show ?case by (auto intro: base64_char_ascii)
qed

lemma btoa_ascii:
  assumes "btoa s = Inr b" and "c \<in> set b"
  shows "c < 128"
proof -
  from assms(1) have wide: "\<not> list_ex (\<lambda>c. 255 < c) s" and b: "b = base64_encode (map unat s)"
    by (simp_all add: btoa_def split: if_splits)
  from wide have "\<forall>a \<in> set (map unat s). a < 256"
    by (auto simp add: list_ex_iff word_less_nat_alt not_less)
  then show ?thesis
    using assms(2) unfolding b by (rule base64_encode_ascii)
qed

lemma btoa_latin1: "btoa s = (if latin1 s then Inr (base64_encode (map unat s)) else Inl InvalidCharacterError)"
  by (auto simp add: btoa_def latin1_def list_ex_iff list_all_iff not_le)

lemma utf8_unit_ascii: "c < 128 \<Longrightarrow> utf8_unit c = [of_nat (unat c)]"
  by (simp add: utf8_unit_def Let_def word_less_nat_alt)

lemma not_high_surrogate_ascii: "c < 128 \<Longrightarrow> \<not> is_high_surrogate c"
  by (simp add: is_high_surrogate_def word_less_nat_alt word_le_nat_alt)

lemma TextEncoder_encode_ascii:
  "\<forall>c \<in> set s. c < 128 \<Longrightarrow> TextEncoder_encode s = ASCII s"
  by (induction s rule: TextEncoder_encode.induct)
    (simp_all add: ASCII_def utf8_unit_ascii not_high_surrogate_ascii)


subsection \<open>The message to hash\<close>

text \<open>
  The code encodes the text to hash as UTF-8; the bytes are the ASCII codes of its
  characters, because the text is base64 text and a full stop.
\<close>

lemma dot_code: "js ''.'' = [dot]"
  by (simp add: js_def dot_def)

lemma dot_ascii: "dot < 128"
  by (simp add: dot_def)

lemma messageToProof_ASCII:
  "messageToProof e t =
     (case btoa (JSON_stringify e (header (raw t))) of
        Inl err \<Rightarrow> Inl err
      | Inr header64 \<Rightarrow>
         (case btoa (payload (raw t)) of
            Inl err \<Rightarrow> Inl err
          | Inr payload64 \<Rightarrow> Inr (ASCII (header64 @ js ''.'' @ payload64))))"
proof -
  have "TextEncoder_encode (a @ js ''.'' @ b) = ASCII (a @ js ''.'' @ b)"
    if "btoa x = Inr a" and "btoa y = Inr b" for a b x y
    using that by (intro TextEncoder_encode_ascii) (auto simp add: dot_code dot_ascii dest: btoa_ascii)
  then show ?thesis
    by (simp add: messageToProof_def Let_def split: sum.splits)
qed

lemma messageToProof_frame:
  "messageToProof e (t\<lparr> raw := (raw t)\<lparr> protectedHeaders := p \<rparr> \<rparr>) = messageToProof e t"
  by (simp add: messageToProof_def split: sum.splits)

lemma getMessageHash_frame:
  "getMessageHash e (t\<lparr> raw := (raw t)\<lparr> protectedHeaders := p \<rparr> \<rparr>) = getMessageHash e t"
  by (simp add: getMessageHash_def messageToProof_frame)

lemma getMessageHash_error:
  "fst (getMessageHash e t) = Inl err \<Longrightarrow> err = InvalidCharacterError \<or> err = HashFailed"
  by (auto simp add: getMessageHash_def messageToProof_def Let_def
      split: sum.splits option.splits dest: btoa_error)

lemma getMessageHash_events:
  "\<not> list_ex is_ProveCall (snd (getMessageHash e t))"
  by (simp add: getMessageHash_def split: sum.splits option.splits)

subsection \<open>The little-endian bytes\<close>

lemma toLittleEndian_Suc:
  "toLittleEndian (Suc w) n = word_of_int n # toLittleEndian w (n div 256)"
proof -
  have "[0..<Suc w] = 0 # map Suc [0..<w]"
    by (simp add: upt_conv_Cons map_Suc_upt del: upt_Suc)
  then show ?thesis
    by (simp add: toLittleEndian_def o_def zdiv_zmult2_eq del: upt_Suc)
qed

lemma length_toLittleEndian: "length (toLittleEndian w n) = w"
  by (simp add: toLittleEndian_def)

lemma little_endian_value_toLittleEndian:
  "little_endian_value (toLittleEndian w n) = n mod 256 ^ w"
proof (induction w arbitrary: n)
  case 0
  then show ?case by (simp add: toLittleEndian_def)
next
  case (Suc w)
  have "uint (word_of_int n :: 8 word) = n mod 256"
    by (simp add: uint_word_of_int)
  moreover have "n mod (256 * 256 ^ w) = 256 * (n div 256 mod 256 ^ w) + n mod 256"
    by (rule zmod_zmult2_eq) simp
  ultimately show ?case
    using Suc by (simp add: toLittleEndian_Suc)
qed

subsection \<open>Splitting on dots\<close>

lemma split_dot_not_Nil: "split_dot s \<noteq> []"
  by (induction s) (auto split: list.splits)

lemma length_split_dot: "length (split_dot s) = segments s"
  unfolding segments_def
  by (induction s) (auto split: list.splits simp add: split_dot_not_Nil)

lemma join_dot_split_dot: "join_dot (split_dot s) = s"
proof (induction s)
  case Nil
  then show ?case by simp
next
  case (Cons c cs)
  obtain p ps where ps: "split_dot cs = p # ps"
    using split_dot_not_Nil by (cases "split_dot cs") auto
  with Cons show ?case
    by (cases ps) auto
qed

lemma split_dot_no_dot: "p \<in> set (split_dot s) \<Longrightarrow> dot \<notin> set p"
  by (induction s arbitrary: p) (auto split: list.splits if_splits)

subsection \<open>What a failing prove leaves behind\<close>

text \<open>
  A \<^verbatim>\<open>prove\<close> that fails with an error other than the two of
  \<^verbatim>\<open>compactSerialize\<close> has changed the protected-headers text and nothing else;
  so has a \<^verbatim>\<open>prove\<close> that fails in \<^verbatim>\<open>getMessageHash\<close>.
\<close>

lemma prove_early_failure:
  assumes "fst (prove e t provingKey wasm) = Inl err"
    and "err \<noteq> SerializationIncomplete" and "err \<noteq> InvalidCharacterError"
  shows "token_after (prove e t provingKey wasm)
           = t\<lparr> raw := (raw t)\<lparr> protectedHeaders := Some (JSON_stringify e (header (raw t))) \<rparr> \<rparr>"
  using assms
  by (auto simp add: prove_def token_after_def Let_def
      split: option.splits sum.splits prod.splits dest: compactSerialize_error)


subsection \<open>Values of the scenario\<close>

lemma btoa_m1:
  \<open>btoa (js ''{"alg":"m1","crit":["circuitId"],"circuitId":"c1","typ":"JWZ"}'') =
     Inr (js ''eyJhbGciOiJtMSIsImNyaXQiOlsiY2lyY3VpdElkIl0sImNpcmN1aXRJZCI6ImMxIiwidHlwIjoiSldaIn0='')\<close>
  \<open>btoa (js ''{"id":1}'') = Inr (js ''eyJpZCI6MX0='')\<close>
  by (simp_all add: btoa_def js_def base64_char_def base64_code_def)

lemma stringify_m1:
  \<open>JSON_stringify env_m1 (header (raw token_m1)) =
     js ''{"alg":"m1","crit":["circuitId"],"circuitId":"c1","typ":"JWZ"}''\<close>
  \<open>JSON_stringify env_m1 (header (raw token_m1_no_preparer)) =
     js ''{"alg":"m1","crit":["circuitId"],"circuitId":"c1","typ":"JWZ"}''\<close>
  \<open>JSON_stringify env_m1 (header (raw (token_m1\<lparr> zkProof := proof_m1 \<rparr>))) =
     js ''{"alg":"m1","crit":["circuitId"],"circuitId":"c1","typ":"JWZ"}''\<close>
  by (simp_all add: scenario_defs)

lemma payload_m1:
  \<open>payload (raw token_m1) = js ''{"id":1}''\<close>
  \<open>payload (raw token_m1_no_preparer) = js ''{"id":1}''\<close>
  \<open>payload (raw (token_m1\<lparr> zkProof := proof_m1 \<rparr>)) = js ''{"id":1}''\<close>
  by (simp_all add: token_m1_def token_m1_no_preparer_def new_Token_def payload_id1_def)

subsection \<open>The round trip through the compact format\<close>

text \<open>
  C1 (the code departs from the claim). The claim: parsing the string that
  \<^verbatim>\<open>compactSerialize\<close> returns for a proved Token, and sanitizing it, gives back
  \<^verbatim>\<open>alg\<close>, \<^verbatim>\<open>circuitId\<close>, payload and proof. The code: \<^verbatim>\<open>compactSerialize\<close>
  passes the protected-headers text to \<^verbatim>\<open>atob\<close>, the base64 decoder, although its
  comment says "base64 encoded". On the Token that \<^verbatim>\<open>prove\<close> leaves in the
  scenario, with header, protected-headers text and proof all present,
  \<^verbatim>\<open>compactSerialize\<close> returns no string: \<^verbatim>\<open>atob\<close> throws on the JSON text.
\<close>

theorem compactSerialize_proved_token_throws:
  \<open>let t = token_after (prove env_m1 token_m1 [] []) in
     header (raw t) = getDefaultHeaders (js ''m1'') (js ''c1'')
   \<and> protectedHeaders (raw t) =
       Some (js ''{"alg":"m1","crit":["circuitId"],"circuitId":"c1","typ":"JWZ"}'')
   \<and> zkProof t = proof_m1
   \<and> compactSerialize env_m1 t = Inl InvalidCharacterError\<close>
  by code_simp

text \<open>
  The call of \<^verbatim>\<open>prove\<close> itself ends in that \<^verbatim>\<open>compactSerialize\<close> (line 169),
  after it has stored the proof (lines 166 and 167): it throws, and the Token holds the
  new proof.
\<close>

lemma prove_throws_in_compactSerialize:
  \<open>fst (prove env_m1 token_m1 [] []) = Inl InvalidCharacterError
   \<and> zkProof token_m1 = JObj []
   \<and> zkProof (token_after (prove env_m1 token_m1 [] [])) = proof_m1
   \<and> zkp (raw token_m1) = None
   \<and> zkp (raw (token_after (prove env_m1 token_m1 [] []))) =
       Some (js ''{"proof":"p1","pub_signals":["1"]}'')\<close>
  by code_simp

subsection \<open>The critical headers\<close>

text \<open>
  C2 (the code departs from the claim). The claim: \<^verbatim>\<open>sanitized\<close> fails with the
  critical-header error when a name of the \<^verbatim>\<open>crit\<close> list is not a key of the
  header, and passes the check when every name is. The code enumerates
  \<^verbatim>\<open>Object.keys\<close> of the list, which are its indices \<^verbatim>\<open>"0", "1", ...\<close>, not its
  members. So the default header, whose \<^verbatim>\<open>crit\<close> names the key
  \<^verbatim>\<open>circuitId\<close> that it has, is rejected for the key \<^verbatim>\<open>0\<close>; and a header
  whose \<^verbatim>\<open>crit\<close> names the missing key \<^verbatim>\<open>foo\<close> is accepted when it has a key
  \<^verbatim>\<open>0\<close>.
\<close>

theorem sanitized_checks_indices_of_crit:
  \<open>sanitized env_m1
       (raw_m1 (js ''{"alg":"m1","crit":["circuitId"],"circuitId":"c1","typ":"JWZ"}''))
     = Inl (CriticalHeaderMissing (js ''0''))
   \<and> (\<exists>t. sanitized env_m1
            (raw_m1 (js ''{"alg":"m1","circuitId":"c1","crit":["foo"],"0":"x"}'')) = Inr t)\<close>
  by (simp add: sanitized_defs index_key.simps scenario_defs)

subsection \<open>The guard of compactSerialize\<close>

text \<open>
  C3 (the code departs from the claim). The claim: \<^verbatim>\<open>compactSerialize\<close> fails
  with the serialization-incomplete error when the proof is absent, in particular on a
  Token that has never been proved. The code tests \<^verbatim>\<open>!this.zkProof\<close>, but the field
  starts as the empty object, which is not falsy. In the scenario \<^verbatim>\<open>prove\<close> fails for
  want of a preparer, no proof has been produced, and \<^verbatim>\<open>compactSerialize\<close> passes
  its guard and throws in \<^verbatim>\<open>atob\<close> instead.
\<close>

theorem compactSerialize_guard_misses_unproved_token:
  \<open>let r = prove env_m1 token_m1_no_preparer [] []; t = token_after r in
     fst r = Inl PrepareFunctionMissing
   \<and> zkProof t = JObj []
   \<and> zkp (raw t) = None
   \<and> compactSerialize env_m1 t = Inl InvalidCharacterError\<close>
  by code_simp

subsection \<open>The message hash\<close>

text \<open>
  C4 (the code departs from the claim). The claim: for every Token,
  \<^verbatim>\<open>getMessageHash\<close> builds the bytes
  \<open>ASCII(base64(serialized header) || "." || base64(payload))\<close>, passes them to the hash
  collaborator and returns the integer as little-endian bytes. The comment of line 196
  gives the input as \<^verbatim>\<open>BASE64URL(UTF8(...))\<close>; the code calls \<^verbatim>\<open>btoa\<close> on the
  string itself (lines 193 and 194), and \<^verbatim>\<open>btoa\<close> throws on a code unit above 255.
  On the Token whose payload is the euro sign, \<^verbatim>\<open>getMessageHash\<close> throws and the
  hash collaborator is not called.
\<close>

theorem getMessageHash_throws_on_wide_payload:
  "payload (raw token_euro) = [8364]
   \<and> getMessageHash env_m1 token_euro = (Inl InvalidCharacterError, [])"
  by code_simp

text \<open>
  Where the serialized header and the payload are Latin-1 the construction is the one
  the claim gives, with the hash called once on those bytes and a rejection of the hash
  the failure of the call; where one of them is not, the call throws as above. The
  serialization of the integer has the fixed width \<open>hashLength\<close> and reads back,
  little-endian, as the integer modulo \<open>256 ^ hashLength\<close>.
\<close>

lemma getMessageHash_latin1:
  assumes "latin1 (JSON_stringify e (header (raw t)))" and "latin1 (payload (raw t))"
  shows "\<exists>header64 payload64.
           btoa (JSON_stringify e (header (raw t))) = Inr header64
         \<and> btoa (payload (raw t)) = Inr payload64
         \<and> getMessageHash e t =
             (let message = ASCII (header64 @ js ''.'' @ payload64)
              in (case hash e message of
                    None \<Rightarrow> Inl HashFailed
                  | Some hashInt \<Rightarrow> Inr (toLittleEndian (hashLength e) hashInt),
                  [HashCall message]))"
  using assms
  by (simp add: getMessageHash_def messageToProof_ASCII btoa_latin1 Let_def split: option.splits)

lemma getMessageHash_wide:
  assumes "\<not> latin1 (JSON_stringify e (header (raw t))) \<or> \<not> latin1 (payload (raw t))"
  shows "getMessageHash e t = (Inl InvalidCharacterError, [])"
  using assms
  by (auto simp add: getMessageHash_def messageToProof_def btoa_latin1 Let_def)

lemma toLittleEndian_fixed_width_little_endian:
  "length (toLittleEndian w n) = w
   \<and> little_endian_value (toLittleEndian w n) = n mod 256 ^ w"
  by (simp add: length_toLittleEndian little_endian_value_toLittleEndian)

subsection \<open>prove without an inputs-preparer\<close>

text \<open>
  C5, as stated: for every Token with no inputs-preparer, \<^verbatim>\<open>prove\<close> fails with the
  prepare-function-missing error. The code computes the message hash (line 151) before
  it looks at the preparer (line 153): when the hash rejects, that rejection is the
  error of \<^verbatim>\<open>prove\<close>.
\<close>

theorem prove_hash_failure_precedes_preparer_check:
  "inputsPreparer token_m1_no_preparer = None
   \<and> fst (prove env_hash_rejects token_m1_no_preparer [] []) = Inl HashFailed
   \<and> fst (prove env_hash_rejects token_m1_no_preparer [] []) \<noteq> Inl PrepareFunctionMissing"
  by code_simp

text \<open>
  C5, amended. For every Token with no inputs-preparer, \<^verbatim>\<open>prove\<close> fails and the
  proving method's \<^verbatim>\<open>prove\<close> is never invoked. It fails with the
  prepare-function-missing error when the message hash has been computed. When the
  computation of the message hash fails, \<^verbatim>\<open>prove\<close> fails with that failure. The
  hash is the only collaborator that is called in such a run, and it is called at most
  once.
\<close>

theorem prove_without_preparer:
  assumes "inputsPreparer t = None"
  shows "(fst (prove e t provingKey wasm), events_of (prove e t provingKey wasm)) =
           (case btoa (JSON_stringify e (header (raw t))) of
              Inl err \<Rightarrow> (Inl err, [])
            | Inr header64 \<Rightarrow>
               (case btoa (payload (raw t)) of
                  Inl err \<Rightarrow> (Inl err, [])
                | Inr payload64 \<Rightarrow>
                   (let message = ASCII (header64 @ js ''.'' @ payload64)
                    in (case hash e message of
                          None \<Rightarrow> Inl HashFailed
                        | Some hashInt \<Rightarrow> Inl PrepareFunctionMissing,
                        [HashCall message]))))
       \<and> \<not> list_ex is_ProveCall (events_of (prove e t provingKey wasm))"
  using assms
  by (simp add: prove_def getMessageHash_def getMessageHash_frame messageToProof_frame
      messageToProof_ASCII events_of_def Let_def
      split: option.splits sum.splits)

theorem prove_without_preparer_witness:
  "fst (prove env_m1 token_m1_no_preparer [] []) = Inl PrepareFunctionMissing
   \<and> \<not> list_ex is_ProveCall (events_of (prove env_m1 token_m1_no_preparer [] []))"
proof -
  have h: "inputsPreparer token_m1_no_preparer = None"
    by (simp add: token_m1_no_preparer_def new_Token_def)
  have s: "hash env_m1 m = Some (int (length m))" for m
    by (simp add: env_m1_def)
  show ?thesis
    using prove_without_preparer [OF h, of env_m1 "[]" "[]"]
    by (simp add: s stringify_m1 payload_m1 btoa_m1)
qed

subsection \<open>verify\<close>

text \<open>
  C6. \<^verbatim>\<open>verify\<close> leaves the Token as it was, and on every call it builds the
  message \<open>ASCII(base64(serialized header) || "." || base64(payload))\<close> from the header
  and the payload the Token has at that call, has it hashed, and passes the bytes of the
  hash, the Token's proof and the key to the proving method's \<^verbatim>\<open>verify\<close>. It returns
  a boolean exactly when that method returns one, and then the same boolean. It fails
  when \<^verbatim>\<open>btoa\<close> throws (no collaborator called), when the hash rejects and when the
  method rejects.
\<close>

theorem verify_returns_method_verdict:
  "verify e t verificationKey =
     (case btoa (JSON_stringify e (header (raw t))) of
        Inl err \<Rightarrow> (Inl err, t, [])
      | Inr header64 \<Rightarrow>
         (case btoa (payload (raw t)) of
            Inl err \<Rightarrow> (Inl err, t, [])
          | Inr payload64 \<Rightarrow>
             (let message = ASCII (header64 @ js ''.'' @ payload64)
              in case hash e message of
                None \<Rightarrow> (Inl HashFailed, t, [HashCall message])
              | Some hashInt \<Rightarrow>
                 (let msgHash = toLittleEndian (hashLength e) hashInt
                  in (case method_verify (method' t) msgHash (zkProof t) verificationKey of
                        None \<Rightarrow> Inl VerifyFailed
                      | Some b \<Rightarrow> Inr b,
                      t,
                      [HashCall message,
                       VerifyCall msgHash (zkProof t) verificationKey])))))"
  by (simp add: verify_def getMessageHash_def messageToProof_ASCII Let_def
      split: option.splits sum.splits)

text \<open>
  The method of the scenario accepts the proof \<open>proof_m1\<close> and rejects the empty
  object of a fresh Token; \<^verbatim>\<open>verify\<close> returns the one and the other verdict.
\<close>

theorem verify_returns_method_verdict_witness:
  "fst (verify env_m1 (token_m1\<lparr> zkProof := proof_m1 \<rparr>) []) = Inr True
   \<and> fst (verify env_m1 token_m1 []) = Inr False
   \<and> token_after (verify env_m1 token_m1 []) = token_m1"
proof -
  have h: "hash env_m1 m = Some (int (length m))" for m
    by (simp add: env_m1_def)
  have v1: "method_verify (method' token_m1) m proof_m1 [] = Some True" for m
    by (simp add: token_m1_def new_Token_def method_m1_def)
  have v2: "method_verify (method' token_m1) m (zkProof token_m1) [] = Some False" for m
    by (simp add: token_m1_def new_Token_def method_m1_def proof_m1_def js_def)
  from verify_returns_method_verdict [of env_m1 "token_m1\<lparr> zkProof := proof_m1 \<rparr>" "[]"]
  have "fst (verify env_m1 (token_m1\<lparr> zkProof := proof_m1 \<rparr>) []) = Inr True"
    by (simp add: h v1 stringify_m1 payload_m1 btoa_m1 Let_def)
  moreover
  from verify_returns_method_verdict [of env_m1 token_m1 "[]"]
  have "fst (verify env_m1 token_m1 []) = Inr False"
    and "token_after (verify env_m1 token_m1 []) = token_m1"
    by (simp_all add: h v2 stringify_m1 payload_m1 btoa_m1 Let_def token_after_def)
  ultimately show ?thesis
    by simp
qed

subsection \<open>The proof state after a failing prove\<close>



subsection \<open>The segments of a compact token\<close>

text \<open>
  C8. Compact parsing fails with the invalid-segments error on every input that does not
  have exactly three dot-separated segments, and on no input that has three: there it
  decodes the three segments with \<^verbatim>\<open>atob\<close> and sanitizes the raw token they make.
\<close>

theorem parseCompact_three_segments:
  "(segments s \<noteq> 3 \<longrightarrow> parseCompact e s = Inl InvalidCompactSegments)
   \<and> (segments s = 3 \<longrightarrow>
        parseCompact e s \<noteq> Inl InvalidCompactSegments
      \<and> (\<exists>a b c. s = a @ js ''.'' @ b @ js ''.'' @ c
            \<and> dot \<notin> set a \<union> set b \<union> set c
            \<and> parseCompact e s =
                (case atob a of
                   Inl err \<Rightarrow> Inl err
                 | Inr rawProtected \<Rightarrow>
                    (case atob b of
                       Inl err \<Rightarrow> Inl err
                     | Inr rawPayload \<Rightarrow>
                        (case atob c of
                           Inl err \<Rightarrow> Inl err
                         | Inr proof \<Rightarrow>
                             sanitized e \<lparr> payload = rawPayload,
                                           protectedHeaders = Some rawProtected,
                                           header = JObj [],
                                           zkp = Some proof \<rparr>)))))"
proof (intro conjI impI)
  assume "segments s \<noteq> 3"
  then show "parseCompact e s = Inl InvalidCompactSegments"
    by (simp add: parseCompact_def length_split_dot)
next
  assume three: "segments s = 3"
  then have len: "length (split_dot s) = 3"
    by (simp add: length_split_dot)
  then obtain a b c where parts: "split_dot s = [a, b, c]"
    by (auto simp add: length_Suc_conv numeral_3_eq_3)
  have pc: "parseCompact e s =
      (case atob a of
         Inl err \<Rightarrow> Inl err
       | Inr rawProtected \<Rightarrow>
          (case atob b of
             Inl err \<Rightarrow> Inl err
           | Inr rawPayload \<Rightarrow>
              (case atob c of
                 Inl err \<Rightarrow> Inl err
               | Inr proof \<Rightarrow>
                   sanitized e \<lparr> payload = rawPayload,
                                 protectedHeaders = Some rawProtected,
                                 header = JObj [],
                                 zkp = Some proof \<rparr>)))"
    by (simp add: parseCompact_def parts Let_def numeral_2_eq_2 split: sum.splits)
  show "parseCompact e s \<noteq> Inl InvalidCompactSegments"
    unfolding pc
    by (auto split: sum.splits dest: atob_error sanitized_error)
  have "join_dot (split_dot s) = s"
    by (rule join_dot_split_dot)
  then have s: "s = a @ js ''.'' @ b @ js ''.'' @ c"
    by (simp add: parts dot_code)
  have "dot \<notin> set a" "dot \<notin> set b" "dot \<notin> set c"
    using split_dot_no_dot [of _ s] by (simp_all add: parts)
  then have nd: "dot \<notin> set a \<union> set b \<union> set c"
    by simp
  from s nd pc show "\<exists>a b c. s = a @ js ''.'' @ b @ js ''.'' @ c
            \<and> dot \<notin> set a \<union> set b \<union> set c
            \<and> parseCompact e s =
                (case atob a of
                   Inl err \<Rightarrow> Inl err
                 | Inr rawProtected \<Rightarrow>
                    (case atob b of
                       Inl err \<Rightarrow> Inl err
                     | Inr rawPayload \<Rightarrow>
                        (case atob c of
                           Inl err \<Rightarrow> Inl err
                         | Inr proof \<Rightarrow>
                             sanitized e \<lparr> payload = rawPayload,
                                           protectedHeaders = Some rawProtected,
                                           header = JObj [],
                                           zkp = Some proof \<rparr>)))"
    by blast
qed

text \<open>
  The two-segment string of the spec is refused for its segments; the three-segment
  token \<open>compact_m1\<close> is not.
\<close>

theorem parseCompact_three_segments_witness:
  "segments (js ''A.B'') = 2
   \<and> parseCompact env_m1 (js ''A.B'') = Inl InvalidCompactSegments
   \<and> segments compact_m1 = 3
   \<and> parseCompact env_m1 compact_m1 \<noteq> Inl InvalidCompactSegments"
proof -
  have two: "segments (js ''A.B'') = 2" and three: "segments compact_m1 = 3"
    by (simp_all add: segments_def compact_m1_def js_def dot_def)
  from parseCompact_three_segments [of "js ''A.B''" env_m1] two
  have "parseCompact env_m1 (js ''A.B'') = Inl InvalidCompactSegments"
    by simp
  moreover
  from parseCompact_three_segments [of compact_m1 env_m1] three
  have "parseCompact env_m1 compact_m1 \<noteq> Inl InvalidCompactSegments"
    by simp
  ultimately show ?thesis
    using two three by simp
qed

text \<open>
  What compact parsing makes of \<open>compact_m1\<close>: the segments decode to the texts of
  the scenario, and \<^verbatim>\<open>sanitized\<close> refuses the default header (see C2). So the
  encoded form of a Token of this library does not parse back either.
\<close>

lemma atob_segments_m1:
  \<open>atob (js ''eyJhbGciOiJtMSIsImNyaXQiOlsiY2lyY3VpdElkIl0sImNpcmN1aXRJZCI6ImMxIiwidHlwIjoiSldaIn0='')
     = Inr (js ''{"alg":"m1","crit":["circuitId"],"circuitId":"c1","typ":"JWZ"}'')\<close>
  \<open>atob (js ''eyJpZCI6MX0='') = Inr (js ''{"id":1}'')\<close>
  \<open>atob (js ''eyJwcm9vZiI6InAxIiwicHViX3NpZ25hbHMiOlsiMSJdfQ=='')
     = Inr (js ''{"proof":"p1","pub_signals":["1"]}'')\<close>
  by code_simp+

lemma split_dot_compact_m1:
  "split_dot compact_m1 =
    [js ''eyJhbGciOiJtMSIsImNyaXQiOlsiY2lyY3VpdElkIl0sImNpcmN1aXRJZCI6ImMxIiwidHlwIjoiSldaIn0='',
     js ''eyJpZCI6MX0='',
     js ''eyJwcm9vZiI6InAxIiwicHViX3NpZ25hbHMiOlsiMSJdfQ=='']"
  by (simp add: compact_m1_def js_def dot_def)

lemma parseCompact_compact_m1:
  "parseCompact env_m1 compact_m1 = Inl (CriticalHeaderMissing (js ''0''))"
proof -
  have "parseCompact env_m1 compact_m1 =
      sanitized env_m1
        (raw_m1 (js ''{\"alg\":\"m1\",\"crit\":[\"circuitId\"],\"circuitId\":\"c1\",\"typ\":\"JWZ\"}''))"
    by (simp add: parseCompact_def split_dot_compact_m1 atob_segments_m1 numeral_2_eq_2
        raw_m1_def payload_id1_def)
  then show ?thesis
    by (simp add: sanitized_defs index_key.simps scenario_defs)
qed

subsection \<open>prove overwrites the protected headers first\<close>

text \<open>
  C9. Whatever its outcome, \<^verbatim>\<open>prove\<close> leaves the serialization of the header it
  found as the protected-headers text of the Token. A call that fails with the
  prepare-function-missing error has changed the Token in that field, and in no other.
\<close>

theorem prove_sets_protectedHeaders_first:
  "protectedHeaders (raw (token_after (prove e t provingKey wasm)))
     = Some (JSON_stringify e (header (raw t)))
   \<and> (fst (prove e t provingKey wasm) = Inl PrepareFunctionMissing \<longrightarrow>
        token_after (prove e t provingKey wasm)
          = t\<lparr> raw := (raw t)\<lparr> protectedHeaders := Some (JSON_stringify e (header (raw t))) \<rparr> \<rparr>)"
proof -
  have "protectedHeaders (raw (token_after (prove e t provingKey wasm)))
          = Some (JSON_stringify e (header (raw t)))"
    by (simp add: prove_def token_after_def Let_def
        split: option.splits sum.splits prod.splits)
  then show ?thesis
    by (simp add: prove_early_failure)
qed

theorem prove_sets_protectedHeaders_first_witness:
  \<open>fst (prove env_m1 token_m1_no_preparer [] []) = Inl PrepareFunctionMissing
   \<and> protectedHeaders (raw token_m1_no_preparer) = None
   \<and> protectedHeaders (raw (token_after (prove env_m1 token_m1_no_preparer [] []))) =
       Some (js ''{"alg":"m1","crit":["circuitId"],"circuitId":"c1","typ":"JWZ"}'')\<close>
proof -
  have f: "fst (prove env_m1 token_m1_no_preparer [] []) = Inl PrepareFunctionMissing"
    by code_simp
  have p: "protectedHeaders (raw token_m1_no_preparer) = None"
    by (simp add: token_m1_no_preparer_def new_Token_def)
  from prove_sets_protectedHeaders_first [of env_m1 token_m1_no_preparer "[]" "[]"] f p
  show ?thesis
    by (simp add: stringify_m1)
qed

subsection \<open>A header without crit\<close>

text \<open>
  C10. When the protected-headers text parses to a header that has no \<^verbatim>\<open>crit\<close> key,
  \<^verbatim>\<open>sanitized\<close> does not succeed: it fails with the missing-payload error on an
  empty payload, and otherwise with the TypeError of enumerating the keys of
  \<^verbatim>\<open>undefined\<close>.
\<close>

theorem sanitized_without_crit_fails:
  assumes "protectedHeaders r = Some text"
    and "JSON_parse e text = Some headers"
    and "\<not> has_key headers headerCritical"
  shows "sanitized e r = Inl (if payload r = [] then MissingPayload else TypeError)"
proof (cases headers)
  case (JObj kvs)
  with assms(3) have "map_of kvs headerCritical = None"
    by (simp add: map_of_eq_None_iff)
  with assms(1,2) JObj show ?thesis
    by (simp add: sanitized_def sanitize_headers_def own_property_def)
qed (use assms(1,2) in \<open>simp_all add: sanitized_def\<close>)

theorem sanitized_without_crit_fails_witness:
  \<open>sanitized env_m1 (raw_m1 (js ''{"alg":"m1","circuitId":"c1"}'')) = Inl TypeError\<close>
proof -
  have p: \<open>protectedHeaders (raw_m1 (js ''{"alg":"m1","circuitId":"c1"}'')) =
      Some (js ''{"alg":"m1","circuitId":"c1"}'')\<close>
    by (simp add: raw_m1_def)
  have j: \<open>JSON_parse env_m1 (js ''{"alg":"m1","circuitId":"c1"}'') = Some header_without_crit\<close>
    by (simp add: scenario_defs)
  have k: "\<not> has_key header_without_crit headerCritical"
    by (simp add: header_without_crit_def headerCritical_def js_def)
  from sanitized_without_crit_fails [OF p j k] show ?thesis
    by (simp add: raw_m1_def payload_id1_def js_def)
qed

end
